theory Spec2Isabelle
  imports Complex_Main "HOL-Library.Word"
begin

section \<open>Go values\<close>

text \<open>
  A Go \<open>error\<close> is identified with the message it carries; \<open>int64\<close> is a 64-bit
  word whose arithmetic wraps around; a Go \<open>int\<close> is read as the integer it denotes.
\<close>

type_synonym error = string
type_synonym int64 = "64 word"

text \<open>
  \<open>float64\<close>: the finite values are the reals they denote, next to the two infinities
  and NaN that a division by zero produces. Rounding, overflow to infinity and the sign
  of zero are left out: a finite result is the exact real result.
\<close>

datatype float64 = Fin real | PInf | NInf | NaN

fun fneg :: "float64 \<Rightarrow> float64" where
  "fneg (Fin a) = Fin (- a)"
| "fneg PInf = NInf"
| "fneg NInf = PInf"
| "fneg NaN = NaN"

fun fadd :: "float64 \<Rightarrow> float64 \<Rightarrow> float64" where
  "fadd (Fin a) (Fin b) = Fin (a + b)"
| "fadd NaN _ = NaN"
| "fadd _ NaN = NaN"
| "fadd PInf NInf = NaN"
| "fadd NInf PInf = NaN"
| "fadd PInf _ = PInf"
| "fadd _ PInf = PInf"
| "fadd NInf _ = NInf"
| "fadd _ NInf = NInf"

definition fsub :: "float64 \<Rightarrow> float64 \<Rightarrow> float64" where
  "fsub a b = fadd a (fneg b)"

fun fsign :: "float64 \<Rightarrow> real" where
  "fsign (Fin a) = sgn a"
| "fsign PInf = 1"
| "fsign NInf = - 1"
| "fsign NaN = 0"

fun fmul :: "float64 \<Rightarrow> float64 \<Rightarrow> float64" where
  "fmul (Fin a) (Fin b) = Fin (a * b)"
| "fmul NaN _ = NaN"
| "fmul _ NaN = NaN"
| "fmul a b =
     (if fsign a * fsign b = 0 then NaN else if 0 < fsign a * fsign b then PInf else NInf)"

fun fdiv :: "float64 \<Rightarrow> float64 \<Rightarrow> float64" where
  "fdiv (Fin a) (Fin b) =
     (if b \<noteq> 0 then Fin (a / b)
      else if a = 0 then NaN else if 0 < a then PInf else NInf)"
| "fdiv NaN _ = NaN"
| "fdiv _ NaN = NaN"
| "fdiv (Fin a) _ = Fin 0"
| "fdiv PInf (Fin b) = (if 0 \<le> b then PInf else NInf)"
| "fdiv NInf (Fin b) = (if 0 \<le> b then NInf else PInf)"
| "fdiv _ _ = NaN"

fun fsqrt :: "float64 \<Rightarrow> float64" where
  "fsqrt (Fin a) = (if a < 0 then NaN else Fin (sqrt a))"
| "fsqrt PInf = PInf"
| "fsqrt NInf = NaN"
| "fsqrt NaN = NaN"

text \<open>The conversions \<open>float64(n)\<close> of an \<open>int\<close> and of an \<open>int64\<close>.\<close>

definition float64_of_int :: "int \<Rightarrow> float64" where
  "float64_of_int n = Fin (of_int n)"

definition float64_of_int64 :: "int64 \<Rightarrow> float64" where
  "float64_of_int64 w = Fin (of_int (sint w))"

text \<open>\<open>strconv.Itoa\<close>, which is also what the verb \<open>%d\<close> prints for an \<open>int\<close>.\<close>

fun digits10 :: "nat \<Rightarrow> string" where
  "digits10 n =
     (if n < 10 then [''0123456789'' ! n]
      else digits10 (n div 10) @ [''0123456789'' ! (n mod 10)])"

declare digits10.simps [simp del]

definition Itoa :: "int \<Rightarrow> string" where
  "Itoa i = (if i < 0 then ''-'' @ digits10 (nat (- i)) else digits10 (nat i))"

section \<open>Package api: loading the configuration\<close>

record Location =
  Country :: string
  City :: string

record Client =
  ASN :: string
  ISP :: string
  Location :: Location
  IP :: "8 word list"

record Target =
  URL :: string
  Location :: Location
  Name :: string

record Config =
  Client :: Client
  Targets :: "Target list"

text \<open>
  What \<open>Load\<close> sees of package \<open>net/http\<close>: a request with its URL and its
  \<open>User-Agent\<close> header, a response with its status code and its body, and a client
  as the function \<open>Do\<close> from a request to a response or an error.
\<close>

record Request =
  Method :: string
  RequestURL :: string
  UserAgentHeader :: string

record Response =
  StatusCode :: int
  Body :: string

type_synonym HTTPClient = "Request \<Rightarrow> error + Response"

record loader =
  c :: HTTPClient
  token :: string
  nurls :: int
  userAgent :: string

type_synonym Option = "loader \<Rightarrow> loader"

definition WithClient :: "HTTPClient \<Rightarrow> Option" where
  "WithClient hc = (\<lambda>l. l\<lparr>c := hc\<rparr>)"

definition WithToken :: "string \<Rightarrow> Option" where
  "WithToken tok = (\<lambda>l. l\<lparr>token := tok\<rparr>)"

definition NumURLs :: "int \<Rightarrow> Option" where
  "NumURLs n = (\<lambda>l. l\<lparr>nurls := n\<rparr>)"

definition WithUserAgent :: "string \<Rightarrow> Option" where
  "WithUserAgent ua = (\<lambda>l. l\<lparr>userAgent := ua\<rparr>)"

text \<open>
  The packages \<open>Load\<close> calls into and the platform constants, as parameters:
  \<open>http.DefaultClient\<close>, \<open>http.NewRequest\<close> (method and URL to a request, or an
  error), the JSON decoder applied to the response body, \<open>url.QueryEscape\<close>, and
  \<open>runtime.GOOS\<close> and \<open>runtime.GOARCH\<close>.
\<close>

record platform =
  GOOS :: string
  GOARCH :: string
  DefaultClient :: HTTPClient
  NewRequest :: "string \<Rightarrow> string \<Rightarrow> error + Request"
  Decode :: "string \<Rightarrow> error + Config"
  QueryEscape :: "string \<Rightarrow> string"

definition DefaultToken :: string where
  "DefaultToken = ''YXNkZmFzZGxmbnNkYWZoYXNkZmhrYWxm''"

definition DefaultUserAgent :: "platform \<Rightarrow> string" where
  "DefaultUserAgent p = ''fast/0.1 ('' @ GOOS p @ ''; '' @ GOARCH p @ '')''"

text \<open>
  \<open>makeURL\<close>: \<open>url.Values.Encode\<close> writes the three pairs sorted by key, and
  \<open>URL.String\<close> puts a slash between the host and a path that has none.
\<close>

definition makeURL :: "platform \<Rightarrow> string \<Rightarrow> int \<Rightarrow> string" where
  "makeURL p tok n =
     ''https://api.fast.com/netflix/speedtest/v2?'' @
     ''https=true&token='' @ QueryEscape p tok @ ''&urlCount='' @ Itoa n"

text \<open>The loader once the options and the two defaults have been applied.\<close>

definition configure :: "platform \<Rightarrow> Option list \<Rightarrow> loader" where
  "configure p opts =
     (let l = fold (\<lambda>fn l. fn l) opts
                \<lparr>c = DefaultClient p, token = [], nurls = 0, userAgent = DefaultUserAgent p\<rparr>;
          l = (if nurls l = 0 then l\<lparr>nurls := 3\<rparr> else l);
          l = (if token l = [] then l\<lparr>token := DefaultToken\<rparr> else l)
      in l)"

definition Load :: "platform \<Rightarrow> Option list \<Rightarrow> error + Config" where
  "Load p opts =
     (let l = configure p opts in
      case NewRequest p ''GET'' (makeURL p (token l) (nurls l)) of
        Inl err \<Rightarrow> Inl err
      | Inr req \<Rightarrow>
          (case c l (req\<lparr>UserAgentHeader := userAgent l\<rparr>) of
             Inl err \<Rightarrow> Inl err
           | Inr resp \<Rightarrow>
               if StatusCode resp = 200 then
                 (case Decode p (Body resp) of Inl err \<Rightarrow> Inl err | Inr cfg \<Rightarrow> Inr cfg)
               else if StatusCode resp = 403 then Inl ''invalid API token''
               else Inl (''non-200 status code: '' @ Itoa (StatusCode resp))))"

section \<open>The command: probing the targets\<close>

text \<open>
  \<open>testing.BenchmarkResult\<close>, as far as \<open>main\<close> reads it: the number of iterations
  \<open>N\<close>, the elapsed time \<open>T\<close> (a \<open>time.Duration\<close>, that is an \<open>int64\<close> of
  nanoseconds) and \<open>Bytes\<close>, the byte count registered with \<open>b.SetBytes\<close>.
\<close>

record BenchmarkResult =
  N :: int
  T :: int64
  Bytes :: int64

text \<open>\<open>Duration.Seconds\<close>: the duration as a floating-point number of seconds.\<close>

definition Seconds :: "int64 \<Rightarrow> float64" where
  "Seconds d = Fin (of_int (sint d) / 1000000000)"

text \<open>
  The two values \<open>main\<close> derives from a result \<open>r\<close>: the product
  \<open>r.Bytes*int64(r.N)*8\<close> is taken in \<open>int64\<close> before the conversion.
\<close>

definition mbps :: "BenchmarkResult \<Rightarrow> float64" where
  "mbps r =
     fdiv (fdiv (float64_of_int64 (Bytes r * word_of_int (N r) * 8)) (Fin 1000000))
       (Seconds (T r))"

definition weight :: "BenchmarkResult \<Rightarrow> float64" where
  "weight r = float64_of_int (N r)"

text \<open>
  The formula as the specification words it, on the byte count of one iteration:
  \<open>totalBytes*8 / 1e6 / elapsedTime.Seconds()\<close>.
\<close>

definition spec_megabitsPerSecond :: "BenchmarkResult \<Rightarrow> float64" where
  "spec_megabitsPerSecond r =
     fdiv (fdiv (float64_of_int64 (Bytes r * 8)) (Fin 1000000)) (Seconds (T r))"

text \<open>
  The function handed to \<open>testing.Benchmark\<close>. Of \<open>testing.B\<close> it touches the byte
  count (\<open>b.SetBytes\<close>) and the failure mark (\<open>b.Fatal\<close>). The workers of
  \<open>b.RunParallel\<close> are read through the sequence of their iterations in the order
  they finish: an iteration ends with the error of \<open>Get\<close> or of \<open>io.Copy\<close>, or
  with the number of bytes copied. The flag next to \<open>b\<close> is the \<open>sync.Once\<close>.
\<close>

record B =
  bytes :: int64
  failed :: bool

fun iteration :: "bool \<times> B \<Rightarrow> error + int64 \<Rightarrow> bool \<times> B" where
  "iteration (once, b) (Inl err) = (once, b\<lparr>failed := True\<rparr>)"
| "iteration (once, b) (Inr nw) = (if once then (once, b) else (True, b\<lparr>bytes := nw\<rparr>))"

definition benchFunc :: "(error + int64) list \<Rightarrow> B \<Rightarrow> B" where
  "benchFunc its b = snd (foldl iteration (False, b) its)"

text \<open>
  \<open>parseHost\<close>, over \<open>url.Parse\<close> as a parameter that yields the host of a URL or
  an error.
\<close>

definition parseHost :: "(string \<Rightarrow> error + string) \<Rightarrow> string \<Rightarrow> string" where
  "parseHost Parse url = (case Parse url of Inl err \<Rightarrow> err | Inr host \<Rightarrow> host)"

text \<open>
  What \<open>main\<close> writes to standard output, line by line, as the values printed: the
  header, one row per target (host, iterations, speed) and the closing line with the
  mean and the standard deviation. The host of a row is written before the target is
  probed, the rest of the row after. The column layout of the tab writer and the lines
  that \<open>-v\<close> adds on standard error are left out.
\<close>

datatype line = Header | Row string int float64 | Result float64 float64

text \<open>
  The loop over \<open>c.Targets\<close>. \<open>testing.Benchmark\<close> is a parameter: called with the
  URL the workers download, in the state \<open>w\<close> of the network and the clock, it
  returns a result and the state it leaves. The loop carries the slices \<open>x\<close> and
  \<open>weights\<close> and the lines written so far.
\<close>

fun probe_loop ::
  "(string \<Rightarrow> error + string) \<Rightarrow> (string \<Rightarrow> 'w \<Rightarrow> BenchmarkResult \<times> 'w) \<Rightarrow> Target list \<Rightarrow>
   float64 list \<times> float64 list \<times> line list \<times> 'w \<Rightarrow> float64 list \<times> float64 list \<times> line list \<times> 'w"
where
  "probe_loop Parse Benchmark [] st = st"
| "probe_loop Parse Benchmark (t # ts) (x, weights, out, w) =
     (let url = URL t;
          (r, w') = Benchmark url w;
          m = mbps r
      in probe_loop Parse Benchmark ts
           (x @ [m], weights @ [weight r], out @ [Row (parseHost Parse url) (N r) m], w'))"

text \<open>
  \<open>main\<close>, with the flags \<open>-token\<close>, \<open>-urls\<close> and \<open>-user-agent\<close> as arguments and
  \<open>stat.MeanStdDev\<close> as a parameter. \<open>log.Fatal(err)\<close> ends the program with the
  error: the result \<open>Inl err\<close>.
\<close>

definition main ::
  "platform \<Rightarrow> (string \<Rightarrow> error + string) \<Rightarrow> (string \<Rightarrow> 'w \<Rightarrow> BenchmarkResult \<times> 'w) \<Rightarrow>
   (float64 list \<Rightarrow> float64 list \<Rightarrow> float64 \<times> float64) \<Rightarrow>
   string \<Rightarrow> int \<Rightarrow> string \<Rightarrow> 'w \<Rightarrow> error + line list \<times> 'w"
where
  "main p Parse Benchmark MeanStdDev tok n ua w =
     (case Load p [WithToken tok, NumURLs n, WithUserAgent ua] of
        Inl err \<Rightarrow> Inl err
      | Inr cfg \<Rightarrow>
          (let (x, weights, out, w') =
                 probe_loop Parse Benchmark (Targets cfg) ([], [], [Header], w);
               (mean, std) = MeanStdDev x weights
           in Inr (out @ [Result mean std], w')))"

text \<open>
  The results of the calls of \<open>testing.Benchmark\<close> that a run over the targets
  makes, each call in the state the one before left; and a benchmark that also
  records the URL of every call, in the order of the calls.
\<close>

fun results :: "(string \<Rightarrow> 'w \<Rightarrow> BenchmarkResult \<times> 'w) \<Rightarrow> Target list \<Rightarrow> 'w \<Rightarrow> BenchmarkResult list" where
  "results Benchmark [] w = []"
| "results Benchmark (t # ts) w =
     (let (r, w') = Benchmark (URL t) w in r # results Benchmark ts w')"

definition logged ::
  "(string \<Rightarrow> 'w \<Rightarrow> BenchmarkResult \<times> 'w) \<Rightarrow> string \<Rightarrow> 'w \<times> string list \<Rightarrow> BenchmarkResult \<times> 'w \<times> string list"
where
  "logged Benchmark url = (\<lambda>(w, calls).
     (let (r, w') = Benchmark url w in (r, (w', calls @ [url]))))"

section \<open>The aggregate\<close>

text \<open>The sum of a slice of \<open>float64\<close>.\<close>

fun fsum :: "float64 list \<Rightarrow> float64" where
  "fsum [] = Fin 0"
| "fsum (a # as) = fadd a (fsum as)"

text \<open>
  Modelled from the spec: \<open>stat.MeanStdDev\<close> of the imported package
  \<open>github.com/gonum/stat\<close>, which \<open>main\<close> calls on the slices \<open>x\<close> and
  \<open>weights\<close> and whose body is not among the sources. The call fixes its shape: two
  slices in, a mean and a standard deviation out, and no error. The two values are the
  ones the specification gives for the aggregator: the weighted mean
  \<open>\<Sum>(mbps * weight) / \<Sum>(weight)\<close> and the square root of
  \<open>\<Sum>(weight * (mbps - mean)^2) / \<Sum>(weight)\<close>.
\<close>

definition MeanStdDev :: "float64 list \<Rightarrow> float64 list \<Rightarrow> float64 \<times> float64" where
  "MeanStdDev x weights =
     (let sumWeights = fsum weights;
          mean = fdiv (fsum (map2 (\<lambda>v w. fmul v w) x weights)) sumWeights;
          variance =
            fdiv (fsum (map2 (\<lambda>v w. fmul w (fmul (fsub v mean) (fsub v mean))) x weights))
              sumWeights
      in (mean, fsqrt variance))"

section \<open>Example inputs\<close>

text \<open>
  A platform whose client answers every request with the given status and whose decoder
  yields the given configuration; a parser that takes the host out of an
  \<open>https\<close> URL; and a benchmark that returns one result for the URL of the first
  example target and another for every other URL.
\<close>

definition examplePlatform :: "int \<Rightarrow> Config \<Rightarrow> platform" where
  "examplePlatform status cfg =
     \<lparr>GOOS = ''linux'', GOARCH = ''amd64'',
      DefaultClient = (\<lambda>req. Inr \<lparr>StatusCode = status, Body = ''{}''\<rparr>),
      NewRequest = (\<lambda>m u. Inr \<lparr>Method = m, RequestURL = u, UserAgentHeader = []\<rparr>),
      Decode = (\<lambda>body. Inr cfg),
      QueryEscape = (\<lambda>s. s)\<rparr>"

definition exampleTarget :: "string \<Rightarrow> Target" where
  "exampleTarget u = \<lparr>URL = u, Location = \<lparr>Country = [], City = []\<rparr>, Name = u\<rparr>"

definition exampleConfig :: "string list \<Rightarrow> Config" where
  "exampleConfig urls =
     \<lparr>Client = \<lparr>ASN = [], ISP = [], Location = \<lparr>Country = [], City = []\<rparr>, IP = []\<rparr>,
      Targets = map exampleTarget urls\<rparr>"

definition exampleParse :: "string \<Rightarrow> error + string" where
  "exampleParse u = Inr (takeWhile (\<lambda>ch. ch \<noteq> CHR ''/'') (drop 8 u))"

definition exampleBenchmark ::
  "BenchmarkResult \<Rightarrow> BenchmarkResult \<Rightarrow> string \<Rightarrow> unit \<Rightarrow> BenchmarkResult \<times> unit"
where
  "exampleBenchmark ra rb url w = (if url = ''https://a/x'' then ra else rb, w)"

section \<open>Loading fails on every status but 200\<close>

text \<open>
  C10. When the request could be built and the client answers it with a response whose
  status is not 200, \<open>Load\<close> returns an error and no configuration: the error
  \<open>invalid API token\<close> for status 403, and for any other status the error
  \<open>non-200 status code:\<close> followed by that status in decimal. This holds whatever
  the decoder would make of the body.
\<close>

theorem Load_non_200:
  assumes "NewRequest p ''GET'' (makeURL p (token (configure p opts)) (nurls (configure p opts)))
             = Inr req"
    and "c (configure p opts) (req\<lparr>UserAgentHeader := userAgent (configure p opts)\<rparr>) = Inr resp"
    and "StatusCode resp \<noteq> 200"
  shows "Load p opts =
           Inl (if StatusCode resp = 403 then ''invalid API token''
                else ''non-200 status code: '' @ Itoa (StatusCode resp))
         \<and> (\<forall>cfg. Load p opts \<noteq> Inr cfg)"
  using assms by (simp add: Load_def Let_def)

theorem Load_non_200_witness:
  "Load (examplePlatform 404 (exampleConfig [])) [] = Inl ''non-200 status code: 404''
   \<and> Load (examplePlatform 403 (exampleConfig [])) [WithToken ''bad''] = Inl ''invalid API token''"
proof -
  have a: "Load (examplePlatform 404 (exampleConfig [])) [] = Inl ''non-200 status code: 404''"
    using Load_non_200 [of "examplePlatform 404 (exampleConfig [])" "[]" _
        "\<lparr>StatusCode = 404, Body = ''{}''\<rparr>"]
    by (simp add: examplePlatform_def configure_def Itoa_def digits10.simps)
  have b: "Load (examplePlatform 403 (exampleConfig [])) [WithToken ''bad''] = Inl ''invalid API token''"
    using Load_non_200 [of "examplePlatform 403 (exampleConfig [])" "[WithToken ''bad'']" _
        "\<lparr>StatusCode = 403, Body = ''{}''\<rparr>"]
    by (simp add: examplePlatform_def configure_def WithToken_def)
  show ?thesis using a b by simp
qed

section \<open>The throughput sample of a probe\<close>

lemma sint_prod:
  fixes a :: int64
  assumes "0 \<le> sint a" and "0 \<le> n" and "sint a * n * 8 < 2 ^ 63"
  shows "sint (a * word_of_int n * 8) = sint a * n * 8"
proof -
  have eq: "a * word_of_int n * 8 = (word_of_int (sint a * n * 8) :: int64)"
    by simp
  have nonneg: "0 \<le> sint a * n * 8" using assms by simp
  have "sint (word_of_int k :: int64) = signed_take_bit 63 k" for k
    by (simp add: sint_sbintrunc')
  moreover have "signed_take_bit 63 (sint a * n * 8) = sint a * n * 8"
    using nonneg assms(3) by (intro signed_take_bit_int_eq_self) simp_all
  ultimately show ?thesis by (simp only: eq)
qed

lemma once_done_keeps_bytes: "bytes (snd (foldl iteration (True, b) its)) = bytes b"
proof (induction its arbitrary: b)
  case Nil
  show ?case by simp
next
  case (Cons it its)
  show ?case using Cons.IH by (cases it) simp_all
qed

lemma errors_leave_once:
  "foldl iteration (once, b) (map Inl errs) = (once, b\<lparr>failed := failed b \<or> errs \<noteq> []\<rparr>)"
  by (induction errs arbitrary: b) simp_all

text \<open>
  C1, as the code has it. Where the product fits \<open>int64\<close> and the elapsed time is
  positive, the speed of a result is its byte count times its iterations times 8,
  divided by \<open>1e6\<close> and by the elapsed seconds, and the weight is the number of
  iterations. The byte count of a run of the benchmark function is the one the first
  iteration to complete registers.
\<close>

theorem mbps_counts_every_iteration:
  assumes "0 \<le> sint (Bytes r)" and "0 \<le> N r" and "sint (Bytes r) * N r * 8 < 2 ^ 63"
    and "0 < sint (T r)"
  shows "mbps r =
           Fin (of_int (sint (Bytes r)) * of_int (N r) * 8 / 1000000 /
                (of_int (sint (T r)) / 1000000000))
         \<and> weight r = Fin (of_int (N r))
         \<and> bytes (benchFunc (map Inl errs @ Inr nw # its) b) = nw"
proof -
  have "(of_int (sint (T r)) :: real) \<noteq> 0"
    using assms(4) by (simp del: of_int_sint)
  then have "mbps r =
           Fin (of_int (sint (Bytes r)) * of_int (N r) * 8 / 1000000 /
                (of_int (sint (T r)) / 1000000000))"
    using assms(1-3)
    by (simp add: mbps_def float64_of_int64_def Seconds_def sint_prod del: of_int_sint)
  moreover have "weight r = Fin (of_int (N r))"
    by (simp add: weight_def float64_of_int_def)
  moreover have "bytes (benchFunc (map Inl errs @ Inr nw # its) b) = nw"
    by (simp add: benchFunc_def errors_leave_once once_done_keeps_bytes)
  ultimately show ?thesis by simp
qed

theorem mbps_counts_every_iteration_witness:
  "0 \<le> sint (Bytes \<lparr>N = 2, T = 500000000, Bytes = 1000000\<rparr>)
   \<and> 0 \<le> N \<lparr>N = 2, T = 500000000, Bytes = 1000000\<rparr>
   \<and> sint (Bytes \<lparr>N = 2, T = 500000000, Bytes = 1000000\<rparr>) * N \<lparr>N = 2, T = 500000000, Bytes = 1000000\<rparr> * 8 < 2 ^ 63
   \<and> 0 < sint (T \<lparr>N = 2, T = 500000000, Bytes = 1000000\<rparr>)
   \<and> mbps \<lparr>N = 2, T = 500000000, Bytes = 1000000\<rparr> = Fin 32
   \<and> weight \<lparr>N = 2, T = 500000000, Bytes = 1000000\<rparr> = Fin 2
   \<and> bytes (benchFunc [Inl ''EOF'', Inr 1000000, Inr 999] \<lparr>bytes = 0, failed = False\<rparr>) = 1000000"
  using mbps_counts_every_iteration [of "\<lparr>N = 2, T = 500000000, Bytes = 1000000\<rparr>"
      "[''EOF'']" 1000000 "[Inr 999]" "\<lparr>bytes = 0, failed = False\<rparr>"]
  by simp

text \<open>
  The formula of the specification leaves the iterations out: for 10 iterations of
  \<open>1e8\<close> bytes in one second it gives 800, and \<open>main\<close> computes 8000.
\<close>

theorem mbps_is_not_the_spec_formula:
  "mbps \<lparr>N = 10, T = 1000000000, Bytes = 100000000\<rparr> = Fin 8000
   \<and> spec_megabitsPerSecond \<lparr>N = 10, T = 1000000000, Bytes = 100000000\<rparr> = Fin 800
   \<and> mbps \<lparr>N = 10, T = 1000000000, Bytes = 100000000\<rparr>
       \<noteq> spec_megabitsPerSecond \<lparr>N = 10, T = 1000000000, Bytes = 100000000\<rparr>"
  by (simp add: mbps_def spec_megabitsPerSecond_def float64_of_int64_def Seconds_def)

section \<open>The loop over the targets\<close>

lemma probe_loop_eq:
  "probe_loop Parse B ts (x, ws, out, w) =
     (x @ map mbps (results B ts w), ws @ map weight (results B ts w),
      out @ map2 (\<lambda>t r. Row (parseHost Parse (URL t)) (N r) (mbps r)) ts (results B ts w),
      snd (snd (snd (probe_loop Parse B ts (x, ws, out, w)))))"
proof (induction ts arbitrary: x ws out w)
  case Nil
  show ?case by simp
next
  case (Cons t ts)
  obtain r w' where b: "B (URL t) w = (r, w')" by (cases "B (URL t) w")
  show ?case
    using Cons.IH [of "x @ [mbps r]" "ws @ [weight r]"
        "out @ [Row (parseHost Parse (URL t)) (N r) (mbps r)]" w']
    by (simp add: b Let_def)
qed

lemma logged_calls:
  "snd (snd (snd (snd (probe_loop Parse (logged B) ts (x, ws, out, (w, calls))))))
     = calls @ map URL ts"
proof (induction ts arbitrary: x ws out w calls)
  case Nil
  show ?case by simp
next
  case (Cons t ts)
  obtain r w' where b: "B (URL t) w = (r, w')" by (cases "B (URL t) w")
  show ?case using Cons.IH by (simp add: logged_def b Let_def)
qed

lemma results_logged: "results (logged B) ts (w, calls) = results B ts w"
proof (induction ts arbitrary: w calls)
  case Nil
  show ?case by simp
next
  case (Cons t ts)
  obtain r w' where b: "B (URL t) w = (r, w')" by (cases "B (URL t) w")
  show ?case using Cons.IH by (simp add: logged_def b)
qed

lemma length_results: "length (results B ts w) = length ts"
proof (induction ts arbitrary: w)
  case Nil
  show ?case by simp
next
  case (Cons t ts)
  obtain r w' where b: "B (URL t) w = (r, w')" by (cases "B (URL t) w")
  show ?case using Cons.IH by (simp add: b)
qed

text \<open>
  C9. Run as \<open>main\<close> starts it, with a benchmark that records its calls, the loop
  calls the benchmark once for every target, with the URLs in the order of the
  configuration, each call in the state the call before left; there is one result per
  target, and \<open>x\<close>, \<open>weights\<close> and the rows written after the header hold the
  speed, the weight and the row of these results in that order.
\<close>

theorem probes_in_order:
  "(case probe_loop Parse (logged B) ts ([], [], [Header], (w, [])) of
      (x, weights, out, (w', calls)) \<Rightarrow>
        calls = map URL ts
        \<and> length (results B ts w) = length ts
        \<and> x = map mbps (results B ts w)
        \<and> weights = map weight (results B ts w)
        \<and> out = Header #
              map2 (\<lambda>t r. Row (parseHost Parse (URL t)) (N r) (mbps r)) ts (results B ts w))"
proof -
  obtain x weights out w' calls
    where run: "probe_loop Parse (logged B) ts ([], [], [Header], (w, [])) = (x, weights, out, (w', calls))"
    by (metis surj_pair)
  have "calls = map URL ts"
    using logged_calls [of Parse B ts "[]" "[]" "[Header]" w "[]"] by (simp add: run)
  moreover have "x = map mbps (results B ts w) \<and> weights = map weight (results B ts w)
        \<and> out = Header #
              map2 (\<lambda>t r. Row (parseHost Parse (URL t)) (N r) (mbps r)) ts (results B ts w)"
    using probe_loop_eq [of Parse "logged B" ts "[]" "[]" "[Header]" "(w, [])"]
    by (simp add: run results_logged)
  ultimately show ?thesis by (simp add: run length_results)
qed

section \<open>A probe that fails\<close>

lemma probe_loop_example:
  "probe_loop exampleParse (exampleBenchmark ra rb)
     (Targets (exampleConfig [''https://a/x'', ''https://b/x''])) ([], [], [Header], ())
   = ([mbps ra, mbps rb], [weight ra, weight rb],
      [Header, Row ''a'' (N ra) (mbps ra), Row ''b'' (N rb) (mbps rb)], ())"
  by (simp add: exampleConfig_def exampleTarget_def exampleBenchmark_def exampleParse_def
      parseHost_def Let_def)

lemma Load_example:
  "Load (examplePlatform 200 cfg) [WithToken tok, NumURLs n, WithUserAgent ua] = Inr cfg"
  by (simp add: Load_def examplePlatform_def configure_def WithToken_def NumURLs_def
      WithUserAgent_def Let_def)

text \<open>
  C3, on a run whose first target fails. An iteration that ends in an error sets the
  failure mark of the benchmark and nothing else, while the other iterations go on.
  Whatever result \<open>ra\<close> the benchmark of the failing target hands back, \<open>main\<close>
  writes its row, goes on to the second target and writes the aggregate: it returns no
  error.
\<close>

theorem failed_probe_does_not_stop_main:
  "benchFunc [Inr 100, Inl ''unexpected EOF'', Inr 100] \<lparr>bytes = 0, failed = False\<rparr>
     = \<lparr>bytes = 100, failed = True\<rparr>
   \<and> main (examplePlatform 200 (exampleConfig [''https://a/x'', ''https://b/x'']))
       exampleParse (exampleBenchmark ra rb) msd DefaultToken 3 ''fast'' ()
     = Inr ([Header, Row ''a'' (N ra) (mbps ra), Row ''b'' (N rb) (mbps rb),
             Result (fst (msd [mbps ra, mbps rb] [weight ra, weight rb]))
                    (snd (msd [mbps ra, mbps rb] [weight ra, weight rb]))], ())"
  by (simp add: benchFunc_def main_def Load_example probe_loop_example split_beta)

section \<open>The aggregate has no error\<close>

text \<open>
  C4 fails on the code: with no target at all \<open>main\<close> still ends with the closing
  line, and with the formulas of the aggregator both of its values are NaN.
\<close>

theorem no_samples_no_error:
  "main (examplePlatform 200 (exampleConfig [])) exampleParse
     (exampleBenchmark \<lparr>N = 0, T = 0, Bytes = 0\<rparr> \<lparr>N = 0, T = 0, Bytes = 0\<rparr>)
     MeanStdDev DefaultToken 3 ''fast'' ()
   = Inr ([Header, Result NaN NaN], ())"
  by (simp add: main_def Load_example exampleConfig_def MeanStdDev_def)

text \<open>
  C4, as the code has it. Once the configuration is loaded, \<open>main\<close> returns no error:
  whatever the samples are, it hands them to \<open>stat.MeanStdDev\<close> and writes the two
  values that come back.
\<close>

theorem main_writes_what_MeanStdDev_returns:
  assumes "Load p [WithToken tok, NumURLs n, WithUserAgent ua] = Inr cfg"
  shows "(case probe_loop Parse B (Targets cfg) ([], [], [Header], w) of
            (x, weights, out, w') \<Rightarrow>
              main p Parse B msd tok n ua w =
                Inr (out @ [Result (fst (msd x weights)) (snd (msd x weights))], w'))"
  using assms by (simp add: main_def split_beta)

theorem main_writes_what_MeanStdDev_returns_witness:
  "Load (examplePlatform 200 (exampleConfig [''https://a/x'']))
       [WithToken DefaultToken, NumURLs 3, WithUserAgent ''fast'']
     = Inr (exampleConfig [''https://a/x''])
   \<and> main (examplePlatform 200 (exampleConfig [''https://a/x''])) exampleParse
       (exampleBenchmark \<lparr>N = 0, T = 0, Bytes = 0\<rparr> \<lparr>N = 0, T = 0, Bytes = 0\<rparr>)
       MeanStdDev DefaultToken 3 ''fast'' ()
     = Inr ([Header, Row ''a'' 0 NaN, Result NaN NaN], ())"
  using main_writes_what_MeanStdDev_returns
    [where p = "examplePlatform 200 (exampleConfig [''https://a/x''])"
       and tok = DefaultToken and n = 3 and ua = "''fast''"
       and cfg = "exampleConfig [''https://a/x'']" and Parse = exampleParse
       and B = "exampleBenchmark \<lparr>N = 0, T = 0, Bytes = 0\<rparr> \<lparr>N = 0, T = 0, Bytes = 0\<rparr>"
       and w = "()" and msd = MeanStdDev]
  by (simp add: Load_example exampleConfig_def exampleTarget_def exampleBenchmark_def
      exampleParse_def parseHost_def Let_def mbps_def weight_def float64_of_int64_def
      float64_of_int_def Seconds_def MeanStdDev_def fsub_def)

section \<open>The weighted mean and standard deviation\<close>

text \<open>
  On finite samples the sums are finite: the aggregate of the speeds \<open>rs\<close> with the
  weights \<open>vs\<close> is then given by sums of reals, as long as the weights do not add up
  to zero.
\<close>

lemma fsum_Fin: "fsum (map Fin as) = Fin (sum_list as)"
  by (induction as) simp_all

lemma map2_Fin:
  assumes "\<And>r v. f (Fin r) (Fin v) = Fin (g r v)"
  shows "map2 f (map Fin rs) (map Fin vs) = map Fin (map2 g rs vs)"
  by (induction rs vs rule: list_induct2') (simp_all add: assms)

lemma MeanStdDev_Fin:
  assumes "sum_list vs \<noteq> 0"
  shows "MeanStdDev (map Fin rs) (map Fin vs) =
           (Fin (sum_list (map2 (*) rs vs) / sum_list vs),
            fsqrt (Fin (sum_list (map2 (\<lambda>r v. v * (r - sum_list (map2 (*) rs vs) / sum_list vs)\<^sup>2) rs vs)
                        / sum_list vs)))"
proof -
  let ?m = "sum_list (map2 (*) rs vs) / sum_list vs"
  have m: "map2 (\<lambda>v w. fmul v w) (map Fin rs) (map Fin vs) = map Fin (map2 (*) rs vs)"
    by (rule map2_Fin) simp
  have v: "map2 (\<lambda>v w. fmul w (fmul (fsub v (Fin ?m)) (fsub v (Fin ?m)))) (map Fin rs) (map Fin vs)
           = map Fin (map2 (\<lambda>r v. v * (r - ?m)\<^sup>2) rs vs)"
    by (rule map2_Fin) (simp add: fsub_def power2_eq_square)
  show ?thesis
    using assms by (simp add: MeanStdDev_def Let_def fsum_Fin m v del: map_map)
qed

lemma wsum_le:
  fixes rs vs :: "real list"
  assumes "\<forall>v \<in> set vs. 0 \<le> v" and "\<forall>r \<in> set rs. r \<le> b" and "length vs = length rs"
  shows "sum_list (map2 (*) rs vs) \<le> b * sum_list vs"
  using assms
proof (induction rs arbitrary: vs)
  case Nil
  then show ?case by simp
next
  case (Cons r rs)
  then obtain v vs' where vs: "vs = v # vs'" by (cases vs) auto
  have "r * v \<le> b * v" using Cons.prems vs by (simp add: mult_right_mono)
  moreover have "sum_list (map2 (*) rs vs') \<le> b * sum_list vs'"
    using Cons.IH [of vs'] Cons.prems vs by simp
  ultimately show ?case using vs by (simp add: algebra_simps)
qed

lemma wsum_ge:
  fixes rs vs :: "real list"
  assumes "\<forall>v \<in> set vs. 0 \<le> v" and "\<forall>r \<in> set rs. a \<le> r" and "length vs = length rs"
  shows "a * sum_list vs \<le> sum_list (map2 (*) rs vs)"
  using assms
proof (induction rs arbitrary: vs)
  case Nil
  then show ?case by simp
next
  case (Cons r rs)
  then obtain v vs' where vs: "vs = v # vs'" by (cases vs) auto
  have "a * v \<le> r * v" using Cons.prems vs by (simp add: mult_right_mono)
  moreover have "a * sum_list vs' \<le> sum_list (map2 (*) rs vs')"
    using Cons.IH [of vs'] Cons.prems vs by simp
  ultimately show ?case using vs by (simp add: algebra_simps)
qed

lemma sum_list_positive:
  fixes vs :: "real list"
  assumes "vs \<noteq> []" and "\<forall>v \<in> set vs. 0 < v"
  shows "0 < sum_list vs"
  using assms
proof (induction vs)
  case Nil
  then show ?case by simp
next
  case (Cons v vs)
  show ?case
  proof (cases "vs = []")
    case True
    then show ?thesis using Cons.prems by simp
  next
    case False
    then have "0 < sum_list vs" using Cons by simp
    then show ?thesis using Cons.prems by (simp add: add_pos_pos)
  qed
qed

lemma wsum_replicate:
  fixes rs :: "real list"
  shows "sum_list (map2 (*) rs (replicate (length rs) k)) = k * sum_list rs"
  by (induction rs) (simp_all add: algebra_simps)

text \<open>
  C6 fails for a sample of weight zero: the quotient is then zero by zero, and neither
  value is the one claimed.
\<close>

theorem one_sample_of_weight_zero: "MeanStdDev [Fin 5] [Fin 0] = (NaN, NaN)"
  by (simp add: MeanStdDev_def Let_def fsub_def)

text \<open>
  C6, amended. For one finite sample whose weight is finite and not zero, the mean is
  the speed of the sample and the standard deviation is 0.
\<close>

theorem one_sample:
  assumes "v \<noteq> 0"
  shows "MeanStdDev [Fin r] [Fin v] = (Fin r, Fin 0)"
  using assms MeanStdDev_Fin [of "[v]" "[r]"] by simp

theorem one_sample_witness:
  "(10 :: real) \<noteq> 0 \<and> MeanStdDev [Fin 800] [Fin 10] = (Fin 800, Fin 0)"
  using one_sample [of 10 800] by simp

text \<open>
  C7. For finite samples, not none, whose weights are all positive, the mean is finite
  and lies between the least and the greatest speed.
\<close>

theorem mean_between_min_and_max:
  assumes "length vs = length rs" and "rs \<noteq> []" and "\<forall>v \<in> set vs. 0 < v"
  shows "\<exists>m. fst (MeanStdDev (map Fin rs) (map Fin vs)) = Fin m
             \<and> Min (set rs) \<le> m \<and> m \<le> Max (set rs)"
proof -
  let ?m = "sum_list (map2 (*) rs vs) / sum_list vs"
  have nonneg: "\<forall>v \<in> set vs. 0 \<le> v" using assms(3) by (simp add: less_imp_le)
  have "vs \<noteq> []" using assms(1,2) by auto
  then have pos: "0 < sum_list vs"
    using assms(3) by (rule sum_list_positive)
  have "sum_list (map2 (*) rs vs) \<le> Max (set rs) * sum_list vs"
    using nonneg assms(1) by (intro wsum_le) simp_all
  then have up: "?m \<le> Max (set rs)" using pos by (simp add: pos_divide_le_eq)
  have "Min (set rs) * sum_list vs \<le> sum_list (map2 (*) rs vs)"
    using nonneg assms(1) by (intro wsum_ge) simp_all
  then have lo: "Min (set rs) \<le> ?m" using pos by (simp add: pos_le_divide_eq)
  have "fst (MeanStdDev (map Fin rs) (map Fin vs)) = Fin ?m"
    using pos MeanStdDev_Fin [of vs rs] by simp
  then show ?thesis using lo up by blast
qed

theorem mean_between_min_and_max_witness:
  "length [10, 5 :: real] = length [800, 1600 :: real] \<and> [800, 1600 :: real] \<noteq> []
   \<and> (0 :: real) < 10 \<and> (0 :: real) < 5
   \<and> (\<exists>m. fst (MeanStdDev [Fin 800, Fin 1600] [Fin 10, Fin 5]) = Fin m
           \<and> Min (set [800, 1600]) \<le> m \<and> m \<le> Max (set [800, 1600]))"
  using mean_between_min_and_max [of "[10, 5]" "[800, 1600]"] by simp

text \<open>
  C8. For finite samples, not none, that all have the same positive weight, the mean is
  the sum of the speeds divided by their number.
\<close>

theorem equal_weights_give_arithmetic_mean:
  assumes "length vs = length rs" and "rs \<noteq> []" and "\<forall>v \<in> set vs. v = k" and "0 < k"
  shows "fst (MeanStdDev (map Fin rs) (map Fin vs)) = Fin (sum_list rs / real (length rs))"
proof -
  have vs: "vs = replicate (length rs) k"
    using assms(1,3) replicate_length_same [of vs k] by simp
  have "sum_list (replicate (length rs) k) = real (length rs) * k"
    by (simp add: sum_list_replicate)
  moreover have "0 < real (length rs) * k" using assms(2,4) by simp
  ultimately show ?thesis
    using assms(2,4) MeanStdDev_Fin [of "replicate (length rs) k" rs]
    by (simp add: vs wsum_replicate)
qed

theorem equal_weights_give_arithmetic_mean_witness:
  "length [5, 5 :: real] = length [800, 1600 :: real] \<and> [800, 1600 :: real] \<noteq> []
   \<and> (0 :: real) < 5
   \<and> fst (MeanStdDev [Fin 800, Fin 1600] [Fin 5, Fin 5]) = Fin 1200"
  using equal_weights_give_arithmetic_mean [of "[5, 5]" "[800, 1600]" 5] by simp

end
